theory Spec2Isabelle
  imports Complex_Main "HOL-Library.Char_ord" "HOL-Library.List_Lexorder"
begin

section \<open>JavaScript numbers\<close>

text \<open>
  A JavaScript Number is either a finite value or one of the three special values
  \<open>Infinity\<close>, \<open>-Infinity\<close> and \<open>NaN\<close>. Finite arithmetic is taken as exact (a real
  number: rounding, overflow to infinity and the sign of zero are not modelled); the
  special values follow IEEE 754. The divisors that can be zero in this program are
  square roots and products of square roots, hence \<open>+0\<close>, so that a non-zero finite
  value divided by zero has the sign of the dividend.

  A finite value of this model is therefore the program's value up to rounding only, and
  where the program's rounding takes the argument of \<open>Math.acos\<close> just outside
  \<open>[-1, 1]\<close> the program has \<open>NaN\<close> and the model a finite angle: no theorem below
  concludes that a computed angle is finite in general. A zero divided by a zero is
  \<open>NaN\<close> in the program as in the model, whatever the rounding.
\<close>

datatype number = Fin real | PInf | NInf | NaN

fun jneg :: "number \<Rightarrow> number" where
  "jneg (Fin a) = Fin (- a)"
| "jneg PInf = NInf"
| "jneg NInf = PInf"
| "jneg NaN = NaN"

fun jadd :: "number \<Rightarrow> number \<Rightarrow> number" where
  "jadd (Fin a) (Fin b) = Fin (a + b)"
| "jadd NaN _ = NaN"
| "jadd _ NaN = NaN"
| "jadd PInf NInf = NaN"
| "jadd NInf PInf = NaN"
| "jadd PInf _ = PInf"
| "jadd _ PInf = PInf"
| "jadd NInf _ = NInf"
| "jadd _ NInf = NInf"

definition jsub :: "number \<Rightarrow> number \<Rightarrow> number" where
  "jsub a b = jadd a (jneg b)"

fun jmul :: "number \<Rightarrow> number \<Rightarrow> number" where
  "jmul (Fin a) (Fin b) = Fin (a * b)"
| "jmul NaN _ = NaN"
| "jmul _ NaN = NaN"
| "jmul (Fin a) PInf = (if a = 0 then NaN else if 0 < a then PInf else NInf)"
| "jmul (Fin a) NInf = (if a = 0 then NaN else if 0 < a then NInf else PInf)"
| "jmul PInf (Fin b) = (if b = 0 then NaN else if 0 < b then PInf else NInf)"
| "jmul NInf (Fin b) = (if b = 0 then NaN else if 0 < b then NInf else PInf)"
| "jmul PInf PInf = PInf"
| "jmul PInf NInf = NInf"
| "jmul NInf PInf = NInf"
| "jmul NInf NInf = PInf"

fun jdiv :: "number \<Rightarrow> number \<Rightarrow> number" where
  "jdiv (Fin a) (Fin b) =
     (if b = 0 then (if a = 0 then NaN else if 0 < a then PInf else NInf)
      else Fin (a / b))"
| "jdiv NaN _ = NaN"
| "jdiv _ NaN = NaN"
| "jdiv (Fin a) _ = Fin 0"
| "jdiv PInf (Fin b) = (if 0 \<le> b then PInf else NInf)"
| "jdiv NInf (Fin b) = (if 0 \<le> b then NInf else PInf)"
| "jdiv _ _ = NaN"

text \<open>The comparison \<open>a < b\<close>: false as soon as one side is \<open>NaN\<close>.\<close>

fun jlt :: "number \<Rightarrow> number \<Rightarrow> bool" where
  "jlt (Fin a) (Fin b) = (a < b)"
| "jlt NaN _ = False"
| "jlt _ NaN = False"
| "jlt _ NInf = False"
| "jlt PInf _ = False"
| "jlt _ _ = True"

definition jgt :: "number \<Rightarrow> number \<Rightarrow> bool" where
  "jgt a b = jlt b a"

fun jabs :: "number \<Rightarrow> number" where
  "jabs (Fin a) = Fin \<bar>a\<bar>"
| "jabs PInf = PInf"
| "jabs NInf = PInf"
| "jabs NaN = NaN"

text \<open>\<open>Math.acos\<close>: \<open>NaN\<close> outside \<open>[-1, 1]\<close>.\<close>

fun jacos :: "number \<Rightarrow> number" where
  "jacos (Fin a) = (if - 1 \<le> a \<and> a \<le> 1 then Fin (arccos a) else NaN)"
| "jacos _ = NaN"

section \<open>The servo actuator loop (camera.js)\<close>

subsection \<open>Number to string, and the default order of \<open>Array.prototype.sort\<close>\<close>

text \<open>
  \<open>sort()\<close> without a comparison function orders the elements by their string
  conversions, compared code unit by code unit. The conversion is a parameter \<open>str\<close> of
  the model; the order on strings is the lexicographic order of the character codes, and
  the sort is stable.

  \<open>toString\<close> is the conversion on the values the concrete runs below use: an
  integer-valued Number of magnitude below \<open>10^21\<close> prints as its decimal numeral, with
  a leading minus sign when negative. It is exact on those values only (the fraction of
  any other finite value is dropped here).
\<close>

definition digit :: "nat \<Rightarrow> char" where
  "digit d = ''0123456789'' ! d"

fun digits :: "nat \<Rightarrow> string" where
  "digits n = (if n < 10 then [digit n] else digits (n div 10) @ [digit (n mod 10)])"

declare digits.simps [simp del]

fun toString :: "number \<Rightarrow> string" where
  "toString (Fin a) =
     (if a < 0 then CHR ''-'' # digits (nat \<lfloor>- a\<rfloor>) else digits (nat \<lfloor>a\<rfloor>))"
| "toString PInf = ''Infinity''"
| "toString NInf = ''-Infinity''"
| "toString NaN = ''NaN''"

subsection \<open>median\<close>

text \<open>
  \<open>sorted[half]\<close> is in range for every non-empty list. On the empty list both reads
  are out of range and give \<open>undefined\<close>, and \<open>(undefined + undefined) / 2\<close> is \<open>NaN\<close>.
\<close>

definition median :: "(number \<Rightarrow> string) \<Rightarrow> number list \<Rightarrow> number" where
  "median str list =
     (let half = length list div 2;
          sorted = sort_key str list
      in if length sorted mod 2 \<noteq> 0 then sorted ! half
         else if sorted = [] then NaN
         else jdiv (jadd (sorted ! (half - 1)) (sorted ! half)) (Fin 2))"

subsection \<open>startServo\<close>

text \<open>
  The servo object: \<open>status\<close> is the field this program adds to it (written by
  \<open>bindPage\<close> at start-up and by \<open>moveServoTo\<close>, nowhere else); \<open>angle_calls\<close> is the
  sequence of arguments of the calls \<open>servo.angle(...)\<close> made so far, the commands sent
  to the hardware bridge.
\<close>

record servo =
  status :: number
  angle_calls :: "number list"

text \<open>
  One run of the timer callback of \<open>startServo\<close> on the servo and its sample array;
  \<open>angles.splice(0)\<close> empties the array.
\<close>

definition updateServo :: "(number \<Rightarrow> string) \<Rightarrow> servo \<times> number list \<Rightarrow> servo \<times> number list" where
  "updateServo str = (\<lambda>(sv, angles).
     if length angles > 0 then
       (let med = median str angles;
            sv' = (if jgt (jabs (jsub (status sv) med)) (Fin 5)
                   then sv\<lparr>angle_calls := angle_calls sv @ [med]\<rparr>
                   else sv)
        in (sv', []))
     else (sv, angles))"

section \<open>Keypoints, gates and angles (demo_util.js)\<close>

text \<open>
  A keypoint carries a confidence score and a position; its part name is not read by
  this program, which addresses the keypoints by index: 0 nose, 1 left eye, 2 right eye,
  3 left ear, 4 right ear, 5 left shoulder, 6 right shoulder, 7 left elbow, 8 right
  elbow, 9 left wrist, 10 right wrist, up to 16. The pose estimator always delivers all
  17 keypoints, with finite coordinates and scores; \<open>wf_keypoints\<close> states the length,
  and the theorems below about \<open>keypoints[i]\<close> assume it (on a shorter array the
  JavaScript would throw a TypeError, which is outside this model).
\<close>

record vector =
  vx :: real
  vy :: real

record keypoint =
  score :: real
  position :: vector

record pose =
  pose_score :: real
  keypoints :: "keypoint list"

record 'a sides =
  left :: 'a
  right :: 'a

definition wf_keypoints :: "keypoint list \<Rightarrow> bool" where
  "wf_keypoints kps = (length kps = 17)"

subsection \<open>Bounding box\<close>

record boundingBox =
  maxX :: real
  maxY :: real
  minX :: real
  minY :: real

text \<open>
  Modelled from the spec: \<open>posenet.getBoundingBox\<close> is a function of the PoseNet
  library, which is not part of the sources; the specification describes its result as
  the axis-aligned bounding box over the keypoints of the pose (on a non-empty list).
\<close>

definition getBoundingBox :: "keypoint list \<Rightarrow> boundingBox" where
  "getBoundingBox kps =
     \<lparr>maxX = Max (set (map (\<lambda>k. vx (position k)) kps)),
      maxY = Max (set (map (\<lambda>k. vy (position k)) kps)),
      minX = Min (set (map (\<lambda>k. vx (position k)) kps)),
      minY = Min (set (map (\<lambda>k. vy (position k)) kps))\<rparr>"

definition getBoundingBoxSize :: "keypoint list \<Rightarrow> real" where
  "getBoundingBoxSize kps =
     (let boundingBox = getBoundingBox kps
      in (maxX boundingBox - minX boundingBox) * (maxY boundingBox - minY boundingBox))"

subsection \<open>Gates\<close>

definition existsArms :: "keypoint list \<Rightarrow> real \<Rightarrow> bool sides" where
  "existsArms kps minConfidence =
     (if score (kps ! 5) > minConfidence \<and> score (kps ! 6) > minConfidence \<and>
         score (kps ! 7) > minConfidence \<and> score (kps ! 8) > minConfidence
      then \<lparr>left = True, right = True\<rparr>
      else if score (kps ! 5) > minConfidence \<and> score (kps ! 6) > minConfidence \<and>
              score (kps ! 7) > minConfidence
      then \<lparr>left = True, right = False\<rparr>
      else if score (kps ! 5) > minConfidence \<and> score (kps ! 6) > minConfidence \<and>
              score (kps ! 8) > minConfidence
      then \<lparr>left = False, right = True\<rparr>
      else \<lparr>left = False, right = False\<rparr>)"

definition existWritst :: "keypoint list \<Rightarrow> real \<Rightarrow> bool sides" where
  "existWritst kps minConfidence =
     (if score (kps ! 9) > minConfidence \<and> score (kps ! 10) > minConfidence
      then \<lparr>left = True, right = True\<rparr>
      else if score (kps ! 9) > minConfidence
      then \<lparr>left = True, right = False\<rparr>
      else if score (kps ! 10) > minConfidence
      then \<lparr>left = False, right = True\<rparr>
      else \<lparr>left = False, right = False\<rparr>)"

definition existsEyeAndNose :: "keypoint list \<Rightarrow> real \<Rightarrow> bool" where
  "existsEyeAndNose kps minConfidence =
     (if score (kps ! 0) > minConfidence \<and> score (kps ! 1) > minConfidence \<and>
         score (kps ! 2) > minConfidence
      then True else False)"

subsection \<open>Vector geometry\<close>

text \<open>
  Coordinates are finite and finite arithmetic is exact, so differences, products, sums
  and the square root of a sum of squares are finite: these are real-valued (in
  particular \<open>cos\<close> of 90 degrees is 0 here). A division and \<open>Math.acos\<close> can leave the
  finite numbers, and are computed on \<open>number\<close>.
\<close>

definition norm_vec :: "vector \<Rightarrow> real" where
  "norm_vec v = sqrt (vx v * vx v + vy v * vy v)"

definition rotateVector :: "vector \<Rightarrow> real \<Rightarrow> vector" where
  "rotateVector v degree =
     (let rad = degree * (pi / 180);
          c = cos rad;
          s = sin rad
      in \<lparr>vx = vx v * c - vy v * s, vy = vx v * s + vy v * c\<rparr>)"

definition calculateAngle :: "vector \<Rightarrow> vector \<Rightarrow> number" where
  "calculateAngle vectorA vectorB =
     (let dot = vx vectorA * vx vectorB + vy vectorA * vy vectorB;
          c = jdiv (Fin dot) (Fin (norm_vec vectorA * norm_vec vectorB));
          rad = jacos c
      in jdiv (jmul rad (Fin 180)) (Fin pi))"

subsection \<open>Face yaw\<close>

definition getFaceYaw :: "keypoint list \<Rightarrow> number" where
  "getFaceYaw kps =
     (let nose = position (kps ! 0);
          leftEye = position (kps ! 1);
          rightEye = position (kps ! 2);
          eyeVector = \<lparr>vx = vx rightEye - vx leftEye, vy = vy rightEye - vy leftEye\<rparr>;
          eyeToNoseVector = \<lparr>vx = vx nose - vx leftEye, vy = vy eyeVector\<rparr>;
          ratio = jdiv (Fin (norm_vec eyeToNoseVector)) (Fin (norm_vec eyeVector))
      in jsub (Fin 180) (jmul ratio (Fin 180)))"

subsection \<open>Arm and wrist angles\<close>

definition getShoulderLine :: "keypoint list \<Rightarrow> vector" where
  "getShoulderLine kps =
     (let leftShoulder = position (kps ! 5);
          rightShoulder = position (kps ! 6)
      in \<lparr>vx = vx leftShoulder - vx rightShoulder, vy = vy leftShoulder - vy rightShoulder\<rparr>)"

definition getUpperArmLine :: "keypoint list \<Rightarrow> vector sides" where
  "getUpperArmLine kps =
     (let leftShoulder = position (kps ! 5);
          rightShoulder = position (kps ! 6);
          leftElbow = position (kps ! 7);
          rightElbow = position (kps ! 8)
      in \<lparr>left = \<lparr>vx = vx leftElbow - vx leftShoulder, vy = vy leftElbow - vy leftShoulder\<rparr>,
          right = \<lparr>vx = vx rightElbow - vx rightShoulder, vy = vy rightElbow - vy rightShoulder\<rparr>\<rparr>)"

definition getArmsAngle :: "keypoint list \<Rightarrow> number sides" where
  "getArmsAngle kps =
     (let shoulderLine = getShoulderLine kps;
          upperArmLine = getUpperArmLine kps
      in \<lparr>left = calculateAngle (rotateVector shoulderLine 90) (left upperArmLine),
          right = calculateAngle (rotateVector shoulderLine 90) (right upperArmLine)\<rparr>)"

definition getWristLine :: "keypoint list \<Rightarrow> vector sides" where
  "getWristLine kps =
     (let leftShoulder = position (kps ! 5);
          rightShoulder = position (kps ! 6);
          leftWrist = position (kps ! 9);
          rightWrist = position (kps ! 10)
      in \<lparr>left = \<lparr>vx = vx leftWrist - vx leftShoulder, vy = vy leftWrist - vy leftShoulder\<rparr>,
          right = \<lparr>vx = vx rightWrist - vx rightShoulder, vy = vy rightWrist - vy rightShoulder\<rparr>\<rparr>)"

definition getWristAngle :: "keypoint list \<Rightarrow> number sides" where
  "getWristAngle kps =
     (let shoulderLine = getShoulderLine kps;
          wristLine = getWristLine kps
      in \<lparr>left = calculateAngle (rotateVector shoulderLine 90) (left wristLine),
          right = calculateAngle (rotateVector shoulderLine 90) (right wristLine)\<rparr>)"

section \<open>The frame loop (camera.js, poseDetectionFrame)\<close>

text \<open>
  The three global sample arrays. One frame takes the poses the estimator returned and
  the two confidence thresholds, and returns the arrays after the frame; drawing on the
  canvas is left out.
\<close>

record buffers =
  left_angles :: "number list"
  right_angles :: "number list"
  faceYaws :: "number list"

definition confidentPoses :: "pose list \<Rightarrow> real \<Rightarrow> pose list" where
  "confidentPoses poses minPoseConfidence =
     filter (\<lambda>elm. pose_score elm \<ge> minPoseConfidence) poses"

text \<open>
  The loop over the confident poses, on the pair of \<open>maxSize\<close> and \<open>maxPose\<close>;
  \<open>maxPose\<close> is \<open>undefined\<close> (here \<open>None\<close>) until a pose is taken.
\<close>

fun maxPoseLoop :: "pose list \<Rightarrow> real \<times> pose option \<Rightarrow> real \<times> pose option" where
  "maxPoseLoop [] acc = acc"
| "maxPoseLoop (p # ps) (maxSize, maxPose) =
     (let size = getBoundingBoxSize (keypoints p)
      in if size > maxSize then maxPoseLoop ps (size, Some p)
         else maxPoseLoop ps (maxSize, maxPose))"

definition selectMaxPose :: "pose list \<Rightarrow> pose option" where
  "selectMaxPose confident = snd (maxPoseLoop confident (0, None))"

definition offset :: real where
  "offset = 30"

definition pushLeft :: "keypoint list \<Rightarrow> real \<Rightarrow> buffers \<Rightarrow> buffers" where
  "pushLeft kps minPartConfidence b =
     (if left (existsArms kps minPartConfidence) then
        (let angles = getArmsAngle kps;
             wristAngles = getWristAngle kps
         in if jlt (left angles) (left wristAngles)
            then b\<lparr>left_angles := left_angles b @ [jadd (left wristAngles) (Fin offset)]\<rparr>
            else b\<lparr>left_angles := left_angles b @ [jadd (left angles) (Fin offset)]\<rparr>)
      else b)"

definition pushRight :: "keypoint list \<Rightarrow> real \<Rightarrow> buffers \<Rightarrow> buffers" where
  "pushRight kps minPartConfidence b =
     (if right (existsArms kps minPartConfidence) then
        (let angles = getArmsAngle kps;
             wristAngles = getWristAngle kps
         in if jlt (right angles) (right wristAngles)
            then b\<lparr>right_angles := right_angles b @
                   [jsub (jsub (Fin 180) (right wristAngles)) (Fin offset)]\<rparr>
            else b\<lparr>right_angles := right_angles b @
                   [jsub (jsub (Fin 180) (right angles)) (Fin offset)]\<rparr>)
      else b)"

definition pushFaceYaw :: "keypoint list \<Rightarrow> real \<Rightarrow> buffers \<Rightarrow> buffers" where
  "pushFaceYaw kps minPartConfidence b =
     (if existsEyeAndNose kps minPartConfidence then
        (let faceYaw = getFaceYaw kps
         in b\<lparr>faceYaws := faceYaws b @ [faceYaw]\<rparr>)
      else b)"

text \<open>The three appends of one frame, on the keypoints of the selected pose.\<close>

definition appendSamples :: "keypoint list \<Rightarrow> real \<Rightarrow> buffers \<Rightarrow> buffers" where
  "appendSamples kps minPartConfidence b =
     pushFaceYaw kps minPartConfidence
       (pushRight kps minPartConfidence
         (pushLeft kps minPartConfidence b))"

definition poseDetectionFrame :: "pose list \<Rightarrow> real \<Rightarrow> real \<Rightarrow> buffers \<Rightarrow> buffers" where
  "poseDetectionFrame poses minPoseConfidence minPartConfidence b =
     (case selectMaxPose (confidentPoses poses minPoseConfidence) of
        None \<Rightarrow> b
      | Some maxPose \<Rightarrow> appendSamples (keypoints maxPose) minPartConfidence b)"

section \<open>The specification's formulas\<close>

text \<open>
  The face yaw as the specification words it: \<open>180 - (|eyeToNose.x| / |eyeVector|) * 180\<close>
  with \<open>eyeVector = rightEye - leftEye\<close> and \<open>eyeToNose.x = nose.x - leftEye.x\<close>.
\<close>

definition spec_faceYaw :: "keypoint list \<Rightarrow> number" where
  "spec_faceYaw kps =
     (let nose = position (kps ! 0);
          leftEye = position (kps ! 1);
          rightEye = position (kps ! 2);
          eyeVector = \<lparr>vx = vx rightEye - vx leftEye, vy = vy rightEye - vy leftEye\<rparr>
      in jsub (Fin 180)
           (jmul (jdiv (Fin \<bar>vx nose - vx leftEye\<bar>) (Fin (norm_vec eyeVector))) (Fin 180)))"

text \<open>
  The larger of the arm angle and the wrist angle, as the specification words it: the
  wrist angle replaces the arm angle exactly when it is strictly greater.
\<close>

definition larger_angle :: "number \<Rightarrow> number \<Rightarrow> number" where
  "larger_angle arm wrist = (if jlt arm wrist then wrist else arm)"

text \<open>
  The median as the specification words it: sort ascending (by numeric value); for odd
  length take the middle value, for even length average the two middle values.
\<close>

definition spec_median :: "real list \<Rightarrow> real" where
  "spec_median xs =
     (let sorted = sort xs;
          half = length xs div 2
      in if length xs mod 2 \<noteq> 0 then sorted ! half
         else (sorted ! (half - 1) + sorted ! half) / 2)"

section \<open>Concrete poses\<close>

definition kp :: "real \<Rightarrow> real \<Rightarrow> real \<Rightarrow> keypoint" where
  "kp s a b = \<lparr>score = s, position = \<lparr>vx = a, vy = b\<rparr>\<rparr>"

text \<open>
  A person facing the camera (image coordinates, \<open>y\<close> downwards), the head tilted, both
  upper arms hanging down, the left forearm stretched out sideways. The parameters are
  the \<open>x\<close> coordinate of the left shoulder (20 for the person as described; 10 puts the
  left shoulder on the right shoulder) and the score of the two wrists.
\<close>

definition person :: "real \<Rightarrow> real \<Rightarrow> keypoint list" where
  "person leftShoulderX wristScore =
     [kp 0.9 13 6, kp 0.9 10 0, kp 0.9 13 4, kp 0.2 9 1, kp 0.2 15 1,
      kp 0.9 leftShoulderX 10, kp 0.9 10 10, kp 0.9 20 15, kp 0.9 10 15,
      kp wristScore 25 10, kp wristScore 10 18,
      kp 0.5 18 30, kp 0.5 12 30, kp 0.5 18 40, kp 0.5 12 40, kp 0.5 18 50, kp 0.5 12 50]"

text \<open>The same keypoints with every \<open>x\<close> coordinate equal to 5: a bounding box of area 0.\<close>

definition flat_person :: "keypoint list" where
  "flat_person = map (\<lambda>k. kp (score k) 5 (vy (position k))) (person 20 0.05)"

definition no_samples :: buffers where
  "no_samples = \<lparr>left_angles = [], right_angles = [], faceYaws = []\<rparr>"

section \<open>Properties of the actuator loop\<close>

lemma updateServo_status: "status (fst (updateServo str (sv, angles))) = status sv"
  by (simp add: updateServo_def Let_def)

lemma updateServo_buffer: "snd (updateServo str (sv, angles)) = []"
  by (simp add: updateServo_def Let_def)

lemma updateServo_calls:
  "angle_calls (fst (updateServo str (sv, angles))) =
     (if angles \<noteq> [] \<and> jgt (jabs (jsub (status sv) (median str angles))) (Fin 5)
      then angle_calls sv @ [median str angles] else angle_calls sv)"
  by (simp add: updateServo_def Let_def)

lemma updateServo_empty: "updateServo str (sv, []) = (sv, [])"
  by (simp add: updateServo_def)

lemmas run_simps = median_def updateServo_def jgt_def jsub_def digits.simps digit_def

text \<open>
  C1. The median that drives the servo decision is taken after \<open>sorted.sort()\<close>, which
  orders the samples by their string conversions, not by their numeric values. The two
  medians of the specification come out as stated (20 and 25), but the samples 95, 100,
  105 are ordered "100", "105", "95": the median computed is 105, not 100, and a servo
  at 90 is sent to 105.
\<close>

theorem median_sorts_by_string:
  "median toString [Fin 10, Fin 20, Fin 30] = Fin 20 \<and>
   median toString [Fin 10, Fin 20, Fin 30, Fin 40] = Fin 25 \<and>
   median toString [Fin 95, Fin 100, Fin 105] = Fin 105 \<and>
   updateServo toString (\<lparr>status = Fin 90, angle_calls = []\<rparr>, [Fin 95, Fin 100, Fin 105]) =
     (\<lparr>status = Fin 90, angle_calls = [Fin 105]\<rparr>, [])"
  by (simp add: run_simps)

text \<open>
  C3. With \<open>status = 90\<close>, a median of 93 issues no command and a median of 96 issues
  the command 96. The command leaves \<open>status\<close> at 90: on the next run a median of 100
  (4 away from the commanded 96) is commanded, and a median of 90 (6 away from the
  commanded 96) is suppressed.
\<close>

theorem deadband_status_not_updated:
  "updateServo toString (\<lparr>status = Fin 90, angle_calls = []\<rparr>, [Fin 93]) =
     (\<lparr>status = Fin 90, angle_calls = []\<rparr>, []) \<and>
   updateServo toString (\<lparr>status = Fin 90, angle_calls = []\<rparr>, [Fin 96]) =
     (\<lparr>status = Fin 90, angle_calls = [Fin 96]\<rparr>, []) \<and>
   updateServo toString (\<lparr>status = Fin 90, angle_calls = [Fin 96]\<rparr>, [Fin 100]) =
     (\<lparr>status = Fin 90, angle_calls = [Fin 96, Fin 100]\<rparr>, []) \<and>
   updateServo toString (\<lparr>status = Fin 90, angle_calls = [Fin 96]\<rparr>, [Fin 90]) =
     (\<lparr>status = Fin 90, angle_calls = [Fin 96]\<rparr>, [])"
  by (simp add: run_simps)

text \<open>
  C10. A run of the loop leaves the buffer empty, and a second run with no append in
  between changes nothing, so it issues no command. But the value taken from the five
  samples 95, 100, 105, 110, 115 is not their median: sorted as strings they are "100",
  "105", "110", "115", "95", and the servo at 90 is sent to 110, where the median of the
  five is 105. (On 50, 10, 40, 20, 30 the two orders agree, and 30 is commanded.)
\<close>

theorem drain_commands_string_median:
  "snd (updateServo str (sv, angles)) = [] \<and>
   updateServo str (updateServo str (sv, angles)) = updateServo str (sv, angles) \<and>
   updateServo toString (\<lparr>status = Fin 90, angle_calls = []\<rparr>,
       [] @ [Fin 95] @ [Fin 100] @ [Fin 105] @ [Fin 110] @ [Fin 115]) =
     (\<lparr>status = Fin 90, angle_calls = [Fin 110]\<rparr>, []) \<and>
   median toString [Fin 95, Fin 100, Fin 105, Fin 110, Fin 115] = Fin 110 \<and>
   spec_median [95, 100, 105, 110, 115] = 105 \<and>
   updateServo toString (\<lparr>status = Fin 90, angle_calls = []\<rparr>,
       [] @ [Fin 50] @ [Fin 10] @ [Fin 40] @ [Fin 20] @ [Fin 30]) =
     (\<lparr>status = Fin 90, angle_calls = [Fin 30]\<rparr>, []) \<and>
   spec_median [50, 10, 40, 20, 30] = 30"
proof (intro conjI)
  show "updateServo str (updateServo str (sv, angles)) = updateServo str (sv, angles)"
    using updateServo_buffer [of str sv angles]
    by (cases "updateServo str (sv, angles)") (simp add: updateServo_empty)
next
  show "snd (updateServo str (sv, angles)) = []"
    by (rule updateServo_buffer)
next
  show "spec_median [95, 100, 105, 110, 115] = 105"
    by (simp add: spec_median_def)
next
  show "spec_median [50, 10, 40, 20, 30] = 30"
    by (simp add: spec_median_def)
qed (simp_all add: run_simps)

section \<open>Properties of the vector geometry\<close>

lemma norm_vec_zero_iff: "norm_vec v = 0 \<longleftrightarrow> vx v = 0 \<and> vy v = 0"
  by (simp add: norm_vec_def sum_squares_eq_zero_iff)

lemma norm_vec_nonneg: "0 \<le> norm_vec v"
  by (simp add: norm_vec_def)

lemma rotateVector_90: "rotateVector v 90 = \<lparr>vx = - vy v, vy = vx v\<rparr>"
  by (simp add: rotateVector_def Let_def)

lemma norm_vec_rotate_90: "norm_vec (rotateVector v 90) = norm_vec v"
  by (simp add: rotateVector_90 norm_vec_def add.commute)

lemma calculateAngle_zero:
  assumes "norm_vec a = 0 \<or> norm_vec b = 0"
  shows "calculateAngle a b = NaN"
proof -
  from assms have "vx a * vx b + vy a * vy b = 0"
    by (auto simp: norm_vec_zero_iff)
  moreover from assms have "norm_vec a * norm_vec b = 0" by auto
  ultimately show ?thesis by (simp add: calculateAngle_def Let_def)
qed

section \<open>The concrete poses, evaluated\<close>

lemma norm_vec_axis [simp]:
  "norm_vec \<lparr>vx = 0, vy = b\<rparr> = \<bar>b\<bar>" "norm_vec \<lparr>vx = a, vy = 0\<rparr> = \<bar>a\<bar>"
  by (simp_all add: norm_vec_def)

lemma norm_vec_3_4 [simp]: "norm_vec \<lparr>vx = 3, vy = 4\<rparr> = 5"
proof -
  have "sqrt (5 * 5) = 5" by (simp del: mult_numeral_left_semiring_numeral) 
  then show ?thesis by (simp add: norm_vec_def)
qed

lemma person_area: "getBoundingBoxSize (person 20 w) = 800"
  by (simp add: getBoundingBoxSize_def getBoundingBox_def person_def kp_def)

lemma flat_person_area: "getBoundingBoxSize flat_person = 0"
  by (simp add: getBoundingBoxSize_def getBoundingBox_def flat_person_def person_def kp_def)

lemma person_arms_angle: "getArmsAngle (person 20 w) = \<lparr>left = Fin 0, right = Fin 0\<rparr>"
  by (simp add: getArmsAngle_def getShoulderLine_def getUpperArmLine_def rotateVector_90
      calculateAngle_def person_def kp_def)

lemma person_wrist_angle: "getWristAngle (person 20 w) = \<lparr>left = Fin 90, right = Fin 0\<rparr>"
  by (simp add: getWristAngle_def getShoulderLine_def getWristLine_def rotateVector_90
      calculateAngle_def person_def kp_def)

lemma shoulders_coincide_arms_angle: "getArmsAngle (person 10 w) = \<lparr>left = NaN, right = NaN\<rparr>"
  by (simp add: getArmsAngle_def getShoulderLine_def getUpperArmLine_def rotateVector_90
      calculateAngle_def person_def kp_def)

lemma shoulders_coincide_wrist_angle: "getWristAngle (person 10 w) = \<lparr>left = NaN, right = NaN\<rparr>"
  by (simp add: getWristAngle_def getShoulderLine_def getWristLine_def rotateVector_90
      calculateAngle_def person_def kp_def)

lemma person_face_yaw: "getFaceYaw (person a w) = Fin 0"
  by (simp add: getFaceYaw_def person_def kp_def jsub_def)

lemma person_spec_face_yaw: "spec_faceYaw (person a w) = Fin 72"
  by (simp add: spec_faceYaw_def person_def kp_def jsub_def)

lemma person_gates:
  assumes "w < c" "c < 0.9"
  shows "existsArms (person a w) c = \<lparr>left = True, right = True\<rparr>"
  "existWritst (person a w) c = \<lparr>left = False, right = False\<rparr>"
  "existsEyeAndNose (person a w) c"
  using assms by (simp_all add: existsArms_def existWritst_def existsEyeAndNose_def person_def kp_def)

lemma person_samples: "w < c \<Longrightarrow> c < 0.9 \<Longrightarrow> appendSamples (person 20 w) c no_samples =
   \<lparr>left_angles = [Fin 120], right_angles = [Fin 150], faceYaws = [Fin 0]\<rparr>"
  by (simp add: appendSamples_def pushLeft_def pushRight_def pushFaceYaw_def person_gates person_arms_angle person_wrist_angle person_face_yaw
     no_samples_def offset_def jsub_def)

lemma shoulders_coincide_samples: "w < c \<Longrightarrow> c < 0.9 \<Longrightarrow> appendSamples (person 10 w) c no_samples =
   \<lparr>left_angles = [NaN], right_angles = [NaN], faceYaws = [Fin 0]\<rparr>"
  by (simp add: appendSamples_def pushLeft_def pushRight_def pushFaceYaw_def person_gates shoulders_coincide_arms_angle shoulders_coincide_wrist_angle person_face_yaw
     no_samples_def offset_def jsub_def)

lemma flat_person_not_selected: "selectMaxPose [\<lparr>pose_score = s, keypoints = flat_person\<rparr>] = None"
  by (simp add: selectMaxPose_def flat_person_area)

lemma wf_person: "wf_keypoints (person a w)"
  by (simp add: wf_keypoints_def person_def)

section \<open>A command outside the travel of the servo\<close>

text \<open>The person above with the left upper arm raised straight up: the left sample is 210.\<close>

lemma raised_arm_samples:
  "poseDetectionFrame [\<lparr>pose_score = 0.8, keypoints = (person 20 0.05)[7 := kp 0.9 20 5]\<rparr>]
      0.15 0.1 no_samples =
     \<lparr>left_angles = [Fin 210], right_angles = [Fin 150], faceYaws = [Fin 0]\<rparr>"
proof -
  let ?k = "\<lambda>w. (person 20 w)[7 := kp 0.9 20 5]"
  have a: "getBoundingBoxSize (?k w) = 800" for w
    by (simp add: getBoundingBoxSize_def getBoundingBox_def person_def kp_def)
  have g: "existsArms (?k w) c = \<lparr>left = True, right = True\<rparr>" "existsEyeAndNose (?k w) c"
    if "c < 0.9" for w c
    using that by (simp_all add: existsArms_def existsEyeAndNose_def person_def kp_def)
  have arms: "getArmsAngle (?k w) = \<lparr>left = Fin 180, right = Fin 0\<rparr>" for w
    by (simp add: getArmsAngle_def getShoulderLine_def getUpperArmLine_def rotateVector_90
        calculateAngle_def person_def kp_def)
  have wrist: "getWristAngle (?k w) = \<lparr>left = Fin 90, right = Fin 0\<rparr>" for w
    by (simp add: getWristAngle_def getShoulderLine_def getWristLine_def rotateVector_90
        calculateAngle_def person_def kp_def)
  have yaw: "getFaceYaw (?k w) = Fin 0" for w
    by (simp add: getFaceYaw_def person_def kp_def jsub_def)
  show ?thesis
    by (simp add: poseDetectionFrame_def confidentPoses_def selectMaxPose_def a
        appendSamples_def pushLeft_def pushRight_def pushFaceYaw_def g arms wrist yaw
        no_samples_def offset_def jsub_def)
qed

text \<open>
  C4. The frame of a person with the left arm raised straight up appends the sample 210
  to the left buffer, and the next run of the loop on that buffer commands 210 to the
  left servo (at 30): an angle outside \<open>[0, 180]\<close> is sent to the servo.
\<close>

theorem command_out_of_range:
  "left_angles (poseDetectionFrame
      [\<lparr>pose_score = 0.8, keypoints = (person 20 0.05)[7 := kp 0.9 20 5]\<rparr>] 0.15 0.1 no_samples)
     = [Fin 210] \<and>
   updateServo toString (\<lparr>status = Fin 30, angle_calls = []\<rparr>, [Fin 210]) =
     (\<lparr>status = Fin 30, angle_calls = [Fin 210]\<rparr>, []) \<and>
   jgt (Fin 210) (Fin 180)"
  using raised_arm_samples by (simp add: run_simps)

section \<open>Properties of the pose selection and of the frame loop\<close>

lemma maxPoseLoop_le:
  "\<forall>q\<in>set ps. getBoundingBoxSize (keypoints q) \<le> m \<Longrightarrow> maxPoseLoop ps (m, mp) = (m, mp)"
  by (induction ps) (auto simp: Let_def)

lemma maxPoseLoop_first_max:
  assumes "m < getBoundingBoxSize (keypoints p)"
    and "\<forall>q\<in>set pre. getBoundingBoxSize (keypoints q) < getBoundingBoxSize (keypoints p)"
    and "\<forall>q\<in>set post. getBoundingBoxSize (keypoints q) \<le> getBoundingBoxSize (keypoints p)"
  shows "maxPoseLoop (pre @ p # post) (m, mp) = (getBoundingBoxSize (keypoints p), Some p)"
  using assms
proof (induction pre arbitrary: m mp)
  case Nil
  then show ?case by (simp add: Let_def maxPoseLoop_le)
next
  case (Cons q pre)
  then show ?case by (simp add: Let_def)
qed

lemma selectMaxPose_None:
  "\<forall>q\<in>set ps. getBoundingBoxSize (keypoints q) \<le> 0 \<Longrightarrow> selectMaxPose ps = None"
  by (simp add: selectMaxPose_def maxPoseLoop_le)

lemma selectMaxPose_Some:
  "0 < getBoundingBoxSize (keypoints p) \<Longrightarrow>
   \<forall>q\<in>set pre. getBoundingBoxSize (keypoints q) < getBoundingBoxSize (keypoints p) \<Longrightarrow>
   \<forall>q\<in>set post. getBoundingBoxSize (keypoints q) \<le> getBoundingBoxSize (keypoints p) \<Longrightarrow>
   selectMaxPose (pre @ p # post) = Some p"
  by (simp add: selectMaxPose_def maxPoseLoop_first_max)

text \<open>A list has no element above \<open>m\<close>, or splits at the first of its largest elements.\<close>

lemma first_max_split:
  fixes f :: "'a \<Rightarrow> real"
  assumes "\<exists>q\<in>set ps. m < f q"
  shows "\<exists>pre p post. ps = pre @ p # post \<and> m < f p \<and> (\<forall>q\<in>set pre. f q < f p) \<and> (\<forall>q\<in>set post. f q \<le> f p)"
  using assms
proof (induction ps arbitrary: m)
  case Nil
  then show ?case by simp
next
  case (Cons a ps)
  show ?case
  proof (cases "\<exists>q\<in>set ps. max m (f a) < f q")
    case True
    from Cons.IH [OF True] obtain pre p post where
      d: "ps = pre @ p # post" "max m (f a) < f p" "\<forall>q\<in>set pre. f q < f p" "\<forall>q\<in>set post. f q \<le> f p"
      by blast
    then have "a # ps = (a # pre) @ p # post \<and> m < f p \<and> (\<forall>q\<in>set (a # pre). f q < f p) \<and> (\<forall>q\<in>set post. f q \<le> f p)"
      by auto
    then show ?thesis by blast
  next
    case False
    then have le: "\<forall>q\<in>set ps. f q \<le> max m (f a)" by (auto simp: not_less)
    show ?thesis
    proof (cases "m < f a")
      case True
      then have "a # ps = [] @ a # ps \<and> m < f a \<and> (\<forall>q\<in>set []. f q < f a) \<and> (\<forall>q\<in>set ps. f q \<le> f a)"
        using le by auto
      then show ?thesis by blast
    next
      case False
      with le have "\<forall>q\<in>set (a # ps). f q \<le> m" by auto
      with Cons.prems show ?thesis by (auto simp: not_le [symmetric])
    qed
  qed
qed

lemma pushLeft_fields [simp]:
  "right_angles (pushLeft kps c b) = right_angles b" "faceYaws (pushLeft kps c b) = faceYaws b"
  by (simp_all add: pushLeft_def Let_def)

lemma pushRight_fields [simp]:
  "left_angles (pushRight kps c b) = left_angles b" "faceYaws (pushRight kps c b) = faceYaws b"
  by (simp_all add: pushRight_def Let_def)

lemma pushFaceYaw_fields [simp]:
  "left_angles (pushFaceYaw kps c b) = left_angles b" "right_angles (pushFaceYaw kps c b) = right_angles b"
  by (simp_all add: pushFaceYaw_def Let_def)

lemma left_angles_appendSamples:
  "left_angles (appendSamples kps c b) =
     (if left (existsArms kps c)
      then left_angles b @ [jadd (larger_angle (left (getArmsAngle kps)) (left (getWristAngle kps))) (Fin 30)]
      else left_angles b)"
  by (simp add: appendSamples_def pushLeft_def Let_def larger_angle_def offset_def)

lemma right_angles_appendSamples:
  "right_angles (appendSamples kps c b) =
     (if right (existsArms kps c)
      then right_angles b @
        [jsub (jsub (Fin 180) (larger_angle (right (getArmsAngle kps)) (right (getWristAngle kps)))) (Fin 30)]
      else right_angles b)"
  by (simp add: appendSamples_def pushRight_def Let_def larger_angle_def offset_def)

lemma faceYaws_appendSamples:
  "faceYaws (appendSamples kps c b) =
     (if existsEyeAndNose kps c then faceYaws b @ [getFaceYaw kps] else faceYaws b)"
  by (simp add: appendSamples_def pushFaceYaw_def Let_def)

lemma poseDetectionFrame_selected:
  "selectMaxPose (confidentPoses poses mpc) = Some p \<Longrightarrow>
   poseDetectionFrame poses mpc c b = appendSamples (keypoints p) c b"
  by (simp add: poseDetectionFrame_def)

lemma poseDetectionFrame_none:
  "selectMaxPose (confidentPoses poses mpc) = None \<Longrightarrow> poseDetectionFrame poses mpc c b = b"
  by (simp add: poseDetectionFrame_def)

lemma larger_angle_max: "larger_angle (Fin x) (Fin y) = Fin (max x y)"
  by (simp add: larger_angle_def max_def)

text \<open>
  C8. The arms gate reports the left side exactly when the scores of the left shoulder,
  the right shoulder and the left elbow are all above the threshold, and the right side
  exactly when those of the left shoulder, the right shoulder and the right elbow are:
  a required keypoint at or below the threshold forces \<open>false\<close> for that side.
\<close>

theorem arms_gate:
  "wf_keypoints kps \<Longrightarrow>
   left (existsArms kps c) = (score (kps ! 5) > c \<and> score (kps ! 6) > c \<and> score (kps ! 7) > c) \<and>
   right (existsArms kps c) = (score (kps ! 5) > c \<and> score (kps ! 6) > c \<and> score (kps ! 8) > c)"
  by (simp add: existsArms_def)


theorem arms_gate_witness:
  "wf_keypoints ((person 20 0.05)[8 := kp 0.05 10 15]) \<and>
   left (existsArms ((person 20 0.05)[8 := kp 0.05 10 15]) 0.1) \<and>
   \<not> right (existsArms ((person 20 0.05)[8 := kp 0.05 10 15]) 0.1)"
proof -
  have w: "wf_keypoints ((person 20 0.05)[8 := kp 0.05 10 15])"
    by (simp add: wf_keypoints_def person_def)
  from arms_gate [OF w, of "0.1"] w show ?thesis
    by (simp add: person_def kp_def)
qed

text \<open>
  C9. In a frame whose selected pose passes the arms gate on a side, the sample appended
  to that side's buffer is the larger of the side's arm angle and wrist angle (the wrist
  angle taken exactly when the arm angle is strictly smaller; the maximum when both are
  finite), plus 30 on the left, and subtracted from 180 and then less 30 on the right.
\<close>

theorem larger_angle_sample:
  assumes "selectMaxPose (confidentPoses poses mpc) = Some p" and "wf_keypoints (keypoints p)"
  shows "(left (existsArms (keypoints p) c) \<longrightarrow>
           left_angles (poseDetectionFrame poses mpc c b) = left_angles b @
             [jadd (larger_angle (left (getArmsAngle (keypoints p))) (left (getWristAngle (keypoints p)))) (Fin 30)]) \<and>
         (right (existsArms (keypoints p) c) \<longrightarrow>
           right_angles (poseDetectionFrame poses mpc c b) = right_angles b @
             [jsub (jsub (Fin 180)
                (larger_angle (right (getArmsAngle (keypoints p))) (right (getWristAngle (keypoints p))))) (Fin 30)]) \<and>
         (\<forall>x y. larger_angle (Fin x) (Fin y) = Fin (max x y))"
  using assms(1)
  by (simp add: poseDetectionFrame_selected left_angles_appendSamples right_angles_appendSamples
      larger_angle_max)

theorem larger_angle_sample_witness:
  "selectMaxPose (confidentPoses [\<lparr>pose_score = 0.8, keypoints = person 20 0.05\<rparr>] 0.15)
     = Some \<lparr>pose_score = 0.8, keypoints = person 20 0.05\<rparr> \<and>
   wf_keypoints (person 20 0.05) \<and>
   left (existsArms (person 20 0.05) 0.1) \<and> right (existsArms (person 20 0.05) 0.1) \<and>
   left_angles (poseDetectionFrame [\<lparr>pose_score = 0.8, keypoints = person 20 0.05\<rparr>] 0.15 0.1 no_samples)
     = [Fin 120] \<and>
   right_angles (poseDetectionFrame [\<lparr>pose_score = 0.8, keypoints = person 20 0.05\<rparr>] 0.15 0.1 no_samples)
     = [Fin 150]"
proof -
  let ?p = "\<lparr>pose_score = 0.8, keypoints = person 20 0.05\<rparr>"
  have s: "selectMaxPose (confidentPoses [?p] 0.15) = Some ?p"
    by (simp add: confidentPoses_def selectMaxPose_def person_area)
  have w: "wf_keypoints (keypoints ?p)" by (simp add: wf_person)
  have g: "left (existsArms (person 20 0.05) 0.1)" "right (existsArms (person 20 0.05) 0.1)"
    by (simp_all add: person_gates)
  from larger_angle_sample [OF s w, of "0.1" no_samples] s w g show ?thesis
    by (simp add: person_arms_angle person_wrist_angle larger_angle_def no_samples_def jsub_def)
qed







text \<open>
  C7, as stated, fails: the only pose of this frame meets the pose confidence threshold
  and passes the arms gate, but its bounding box has area 0, which is not above the
  initial \<open>maxSize = 0\<close>: no pose is selected and no sample is appended.
\<close>

theorem confident_pose_not_selected:
  "confidentPoses [\<lparr>pose_score = 0.8, keypoints = flat_person\<rparr>] 0.15 =
     [\<lparr>pose_score = 0.8, keypoints = flat_person\<rparr>] \<and>
   getBoundingBoxSize flat_person = 0 \<and>
   selectMaxPose [\<lparr>pose_score = 0.8, keypoints = flat_person\<rparr>] = None \<and>
   left (existsArms flat_person 0.1) \<and>
   poseDetectionFrame [\<lparr>pose_score = 0.8, keypoints = flat_person\<rparr>] 0.15 0.1 no_samples = no_samples"
  by (simp add: confidentPoses_def flat_person_area flat_person_not_selected poseDetectionFrame_def)
    (simp add: existsArms_def flat_person_def person_def kp_def)

text \<open>
  C7, amended. The confident poses are those with \<open>score >= minPoseConfidence\<close>, in
  frame order. If none of them has a bounding box of positive area, no pose is selected
  and the frame appends nothing. Otherwise the pose selected is the first of the
  confident poses whose area is largest (every earlier one is strictly smaller, no later
  one is larger), that area being positive, and the samples of the frame are those of
  this pose. One of the two cases always holds.
\<close>

theorem largest_positive_area_selected:
  "((\<forall>q \<in> set (confidentPoses poses mpc). getBoundingBoxSize (keypoints q) \<le> 0) \<longrightarrow>
      poseDetectionFrame poses mpc c b = b) \<and>
   (confidentPoses poses mpc = pre @ p # post \<and>
    0 < getBoundingBoxSize (keypoints p) \<and>
    (\<forall>q \<in> set pre. getBoundingBoxSize (keypoints q) < getBoundingBoxSize (keypoints p)) \<and>
    (\<forall>q \<in> set post. getBoundingBoxSize (keypoints q) \<le> getBoundingBoxSize (keypoints p)) \<longrightarrow>
      selectMaxPose (confidentPoses poses mpc) = Some p \<and>
      poseDetectionFrame poses mpc c b = appendSamples (keypoints p) c b) \<and>
   confidentPoses poses mpc = filter (\<lambda>q. mpc \<le> pose_score q) poses \<and>
   ((\<forall>q \<in> set (confidentPoses poses mpc). getBoundingBoxSize (keypoints q) \<le> 0) \<or>
    (\<exists>pre p post. confidentPoses poses mpc = pre @ p # post \<and>
       0 < getBoundingBoxSize (keypoints p) \<and>
       (\<forall>q \<in> set pre. getBoundingBoxSize (keypoints q) < getBoundingBoxSize (keypoints p)) \<and>
       (\<forall>q \<in> set post. getBoundingBoxSize (keypoints q) \<le> getBoundingBoxSize (keypoints p))))"
proof (intro conjI impI)
  assume "\<forall>q \<in> set (confidentPoses poses mpc). getBoundingBoxSize (keypoints q) \<le> 0"
  then show "poseDetectionFrame poses mpc c b = b"
    by (simp add: selectMaxPose_None poseDetectionFrame_none)
next
  assume a: "confidentPoses poses mpc = pre @ p # post \<and>
    0 < getBoundingBoxSize (keypoints p) \<and>
    (\<forall>q \<in> set pre. getBoundingBoxSize (keypoints q) < getBoundingBoxSize (keypoints p)) \<and>
    (\<forall>q \<in> set post. getBoundingBoxSize (keypoints q) \<le> getBoundingBoxSize (keypoints p))"
  then show s: "selectMaxPose (confidentPoses poses mpc) = Some p"
    by (simp add: selectMaxPose_Some)
  then show "poseDetectionFrame poses mpc c b = appendSamples (keypoints p) c b"
    by (rule poseDetectionFrame_selected)
next
  show "confidentPoses poses mpc = filter (\<lambda>q. mpc \<le> pose_score q) poses"
    by (simp add: confidentPoses_def)
next
  show "(\<forall>q \<in> set (confidentPoses poses mpc). getBoundingBoxSize (keypoints q) \<le> 0) \<or>
    (\<exists>pre p post. confidentPoses poses mpc = pre @ p # post \<and>
       0 < getBoundingBoxSize (keypoints p) \<and>
       (\<forall>q \<in> set pre. getBoundingBoxSize (keypoints q) < getBoundingBoxSize (keypoints p)) \<and>
       (\<forall>q \<in> set post. getBoundingBoxSize (keypoints q) \<le> getBoundingBoxSize (keypoints p)))"
    using first_max_split [of "confidentPoses poses mpc" 0 "\<lambda>q. getBoundingBoxSize (keypoints q)"]
    by (auto simp: not_le [symmetric])
qed

theorem largest_positive_area_selected_witness:
  "confidentPoses [\<lparr>pose_score = 0.8, keypoints = flat_person\<rparr>,
                   \<lparr>pose_score = 0.1, keypoints = person 10 0.05\<rparr>,
                   \<lparr>pose_score = 0.8, keypoints = person 20 0.05\<rparr>] 0.15
     = [\<lparr>pose_score = 0.8, keypoints = flat_person\<rparr>] @
        \<lparr>pose_score = 0.8, keypoints = person 20 0.05\<rparr> # [] \<and>
   0 < getBoundingBoxSize (person 20 0.05) \<and>
   getBoundingBoxSize flat_person < getBoundingBoxSize (person 20 0.05) \<and>
   poseDetectionFrame [\<lparr>pose_score = 0.8, keypoints = flat_person\<rparr>,
                       \<lparr>pose_score = 0.1, keypoints = person 10 0.05\<rparr>,
                       \<lparr>pose_score = 0.8, keypoints = person 20 0.05\<rparr>] 0.15 0.1 no_samples
     = \<lparr>left_angles = [Fin 120], right_angles = [Fin 150], faceYaws = [Fin 0]\<rparr> \<and>
   confidentPoses [\<lparr>pose_score = 0.8, keypoints = flat_person\<rparr>] 0.15 =
     [\<lparr>pose_score = 0.8, keypoints = flat_person\<rparr>] \<and>
   getBoundingBoxSize flat_person \<le> 0 \<and>
   poseDetectionFrame [\<lparr>pose_score = 0.8, keypoints = flat_person\<rparr>] 0.15 0.1 no_samples = no_samples"
proof -
  let ?f = "\<lparr>pose_score = 0.8, keypoints = flat_person\<rparr>"
  let ?l = "\<lparr>pose_score = 0.1, keypoints = person 10 0.05\<rparr>"
  let ?p = "\<lparr>pose_score = 0.8, keypoints = person 20 0.05\<rparr>"
  have h: "confidentPoses [?f, ?l, ?p] 0.15 = [?f] @ ?p # [] \<and>
    0 < getBoundingBoxSize (keypoints ?p) \<and>
    (\<forall>q \<in> set [?f]. getBoundingBoxSize (keypoints q) < getBoundingBoxSize (keypoints ?p)) \<and>
    (\<forall>q \<in> set []. getBoundingBoxSize (keypoints q) \<le> getBoundingBoxSize (keypoints ?p))"
    by (simp add: confidentPoses_def person_area flat_person_area)
  from largest_positive_area_selected [of "[?f, ?l, ?p]" "0.15" "0.1" no_samples "[?f]" ?p "[]"] h
  have "poseDetectionFrame [?f, ?l, ?p] 0.15 0.1 no_samples = appendSamples (person 20 0.05) 0.1 no_samples"
    by simp
  moreover have z: "\<forall>q \<in> set (confidentPoses [?f] 0.15). getBoundingBoxSize (keypoints q) \<le> 0"
    by (simp add: confidentPoses_def flat_person_area)
  moreover from largest_positive_area_selected [of "[?f]" "0.15" "0.1" no_samples] z
  have "poseDetectionFrame [?f] 0.15 0.1 no_samples = no_samples"
    by blast
  ultimately show ?thesis using h
    by (simp add: person_samples confidentPoses_def flat_person_area person_area)
qed

section \<open>Zero-length vectors in the angle computation, and the face yaw\<close>

lemma vector_eq_iff: "(p :: vector) = q \<longleftrightarrow> vx p = vx q \<and> vy p = vy q"
  by (cases p, cases q) simp

lemma shoulderLine_zero_iff:
  "norm_vec (rotateVector (getShoulderLine kps) 90) = 0 \<longleftrightarrow> position (kps ! 5) = position (kps ! 6)"
  by (simp add: norm_vec_rotate_90 norm_vec_zero_iff getShoulderLine_def Let_def vector_eq_iff)

lemma upperArmLine_zero_iff:
  "norm_vec (left (getUpperArmLine kps)) = 0 \<longleftrightarrow> position (kps ! 7) = position (kps ! 5)"
  "norm_vec (right (getUpperArmLine kps)) = 0 \<longleftrightarrow> position (kps ! 8) = position (kps ! 6)"
  by (simp_all add: norm_vec_zero_iff getUpperArmLine_def Let_def vector_eq_iff)

lemma left_armsAngle_NaN:
  assumes "position (kps ! 5) = position (kps ! 6) \<or> position (kps ! 7) = position (kps ! 5)"
  shows "left (getArmsAngle kps) = NaN"
proof -
  have "norm_vec (rotateVector (getShoulderLine kps) 90) = 0 \<or>
        norm_vec (left (getUpperArmLine kps)) = 0"
    using assms by (simp add: shoulderLine_zero_iff upperArmLine_zero_iff)
  then show ?thesis
    by (simp add: getArmsAngle_def Let_def calculateAngle_zero)
qed

lemma right_armsAngle_NaN:
  assumes "position (kps ! 5) = position (kps ! 6) \<or> position (kps ! 8) = position (kps ! 6)"
  shows "right (getArmsAngle kps) = NaN"
proof -
  have "norm_vec (rotateVector (getShoulderLine kps) 90) = 0 \<or>
        norm_vec (right (getUpperArmLine kps)) = 0"
    using assms by (simp add: shoulderLine_zero_iff upperArmLine_zero_iff)
  then show ?thesis
    by (simp add: getArmsAngle_def Let_def calculateAngle_zero)
qed

lemma larger_angle_NaN: "larger_angle NaN w = NaN"
  by (simp add: larger_angle_def)

lemma getFaceYaw_eyes_coincide:
  assumes "position (kps ! 1) = position (kps ! 2)"
  shows "getFaceYaw kps = NaN \<or> getFaceYaw kps = NInf"
  using assms
    norm_vec_nonneg [of "\<lparr>vx = vx (position (kps ! 0)) - vx (position (kps ! 1)), vy = 0\<rparr>"]
  by (auto simp add: getFaceYaw_def Let_def jsub_def)

text \<open>
  C2, amended. Nothing detects a zero norm or clamps the argument of \<open>Math.acos\<close>, and
  every computed value is appended when its gate is true, \<open>NaN\<close> and the infinities
  included. A zero-length vector given to \<open>calculateAngle\<close> makes it return \<open>NaN\<close>;
  in a frame whose selected pose passes the arms gate on a side, the sample appended to
  that side's buffer is \<open>NaN\<close> when the two shoulders coincide or the elbow of that
  side lies on its shoulder; when the pose passes the eyes-and-nose gate and the two eyes
  coincide, the face-yaw sample appended is \<open>NaN\<close> or \<open>-Infinity\<close>.
\<close>

theorem zero_vector_samples:
  assumes "selectMaxPose (confidentPoses poses mpc) = Some p" and "wf_keypoints (keypoints p)"
  shows "(left (existsArms (keypoints p) c) \<and>
          (position (keypoints p ! 5) = position (keypoints p ! 6) \<or>
           position (keypoints p ! 7) = position (keypoints p ! 5)) \<longrightarrow>
            left_angles (poseDetectionFrame poses mpc c b) = left_angles b @ [NaN]) \<and>
         (right (existsArms (keypoints p) c) \<and>
          (position (keypoints p ! 5) = position (keypoints p ! 6) \<or>
           position (keypoints p ! 8) = position (keypoints p ! 6)) \<longrightarrow>
            right_angles (poseDetectionFrame poses mpc c b) = right_angles b @ [NaN]) \<and>
         (existsEyeAndNose (keypoints p) c \<and>
          position (keypoints p ! 1) = position (keypoints p ! 2) \<longrightarrow>
            faceYaws (poseDetectionFrame poses mpc c b) = faceYaws b @ [NaN] \<or>
            faceYaws (poseDetectionFrame poses mpc c b) = faceYaws b @ [NInf]) \<and>
         calculateAngle \<lparr>vx = 0, vy = 0\<rparr> v = NaN \<and>
         calculateAngle v \<lparr>vx = 0, vy = 0\<rparr> = NaN"
proof (intro conjI impI)
  assume "left (existsArms (keypoints p) c) \<and>
          (position (keypoints p ! 5) = position (keypoints p ! 6) \<or>
           position (keypoints p ! 7) = position (keypoints p ! 5))"
  then show "left_angles (poseDetectionFrame poses mpc c b) = left_angles b @ [NaN]"
    using assms(1)
    by (simp add: poseDetectionFrame_selected left_angles_appendSamples left_armsAngle_NaN
        larger_angle_NaN)
next
  assume "right (existsArms (keypoints p) c) \<and>
          (position (keypoints p ! 5) = position (keypoints p ! 6) \<or>
           position (keypoints p ! 8) = position (keypoints p ! 6))"
  then show "right_angles (poseDetectionFrame poses mpc c b) = right_angles b @ [NaN]"
    using assms(1)
    by (simp add: poseDetectionFrame_selected right_angles_appendSamples right_armsAngle_NaN
        larger_angle_NaN jsub_def)
next
  assume "existsEyeAndNose (keypoints p) c \<and>
          position (keypoints p ! 1) = position (keypoints p ! 2)"
  then show "faceYaws (poseDetectionFrame poses mpc c b) = faceYaws b @ [NaN] \<or>
             faceYaws (poseDetectionFrame poses mpc c b) = faceYaws b @ [NInf]"
    using assms(1) getFaceYaw_eyes_coincide [of "keypoints p"]
    by (auto simp add: poseDetectionFrame_selected faceYaws_appendSamples)
next
  show "calculateAngle \<lparr>vx = 0, vy = 0\<rparr> v = NaN"
    by (rule calculateAngle_zero) (simp add: norm_vec_def)
next
  show "calculateAngle v \<lparr>vx = 0, vy = 0\<rparr> = NaN"
    by (rule calculateAngle_zero) (simp add: norm_vec_def)
qed

theorem zero_vector_samples_witness:
  "selectMaxPose (confidentPoses [\<lparr>pose_score = 0.8, keypoints = person 10 0.05\<rparr>] 0.15)
     = Some \<lparr>pose_score = 0.8, keypoints = person 10 0.05\<rparr> \<and>
   wf_keypoints (person 10 0.05) \<and>
   left (existsArms (person 10 0.05) 0.1) \<and> right (existsArms (person 10 0.05) 0.1) \<and>
   position (person 10 0.05 ! 5) = position (person 10 0.05 ! 6) \<and>
   left_angles (poseDetectionFrame [\<lparr>pose_score = 0.8, keypoints = person 10 0.05\<rparr>]
      0.15 0.1 no_samples) = [NaN] \<and>
   right_angles (poseDetectionFrame [\<lparr>pose_score = 0.8, keypoints = person 10 0.05\<rparr>]
      0.15 0.1 no_samples) = [NaN] \<and>
   selectMaxPose (confidentPoses
      [\<lparr>pose_score = 0.8, keypoints = (person 20 0.05)[2 := kp 0.9 10 0]\<rparr>] 0.15)
     = Some \<lparr>pose_score = 0.8, keypoints = (person 20 0.05)[2 := kp 0.9 10 0]\<rparr> \<and>
   existsEyeAndNose ((person 20 0.05)[2 := kp 0.9 10 0]) 0.1 \<and>
   position ((person 20 0.05)[2 := kp 0.9 10 0] ! 1) = position ((person 20 0.05)[2 := kp 0.9 10 0] ! 2) \<and>
   (faceYaws (poseDetectionFrame
       [\<lparr>pose_score = 0.8, keypoints = (person 20 0.05)[2 := kp 0.9 10 0]\<rparr>] 0.15 0.1 no_samples)
      = [NaN] \<or>
    faceYaws (poseDetectionFrame
       [\<lparr>pose_score = 0.8, keypoints = (person 20 0.05)[2 := kp 0.9 10 0]\<rparr>] 0.15 0.1 no_samples)
      = [NInf])"
proof -
  let ?p = "\<lparr>pose_score = 0.8, keypoints = person 10 0.05\<rparr>"
  let ?k = "(person 20 0.05)[2 := kp 0.9 10 0]"
  let ?q = "\<lparr>pose_score = 0.8, keypoints = ?k\<rparr>"
  have a: "getBoundingBoxSize (person 10 u) = 800"
          "getBoundingBoxSize ((person 20 u)[2 := kp t 10 0]) = 800" for u t
    by (simp_all add: getBoundingBoxSize_def getBoundingBox_def person_def kp_def)
  have s: "selectMaxPose (confidentPoses [?p] 0.15) = Some ?p"
          "selectMaxPose (confidentPoses [?q] 0.15) = Some ?q"
    by (simp_all add: confidentPoses_def selectMaxPose_def a)
  have w: "wf_keypoints (keypoints ?p)" "wf_keypoints (keypoints ?q)"
    by (simp_all add: wf_keypoints_def person_def)
  have g: "left (existsArms (person 10 0.05) 0.1)" "right (existsArms (person 10 0.05) 0.1)"
          "existsEyeAndNose ?k 0.1"
    by (simp_all add: existsArms_def existsEyeAndNose_def person_def kp_def)
  have e: "position (person 10 0.05 ! 5) = position (person 10 0.05 ! 6)"
          "position (?k ! 1) = position (?k ! 2)"
    by (simp_all add: person_def kp_def)
  from zero_vector_samples [OF s(1) w(1), of "0.1" no_samples] g e
  have 1: "left_angles (poseDetectionFrame [?p] 0.15 0.1 no_samples) = [NaN]"
          "right_angles (poseDetectionFrame [?p] 0.15 0.1 no_samples) = [NaN]"
    by (simp_all add: no_samples_def)
  from zero_vector_samples [OF s(2) w(2), of "0.1" no_samples] g e
  have 2: "faceYaws (poseDetectionFrame [?q] 0.15 0.1 no_samples) = [NaN] \<or>
           faceYaws (poseDetectionFrame [?q] 0.15 0.1 no_samples) = [NInf]"
    by (simp add: no_samples_def)
  from 1 2 s w g e show ?thesis by simp
qed

text \<open>
  C2, as stated, fails: with the left shoulder on the right shoulder the shoulder line
  is the zero vector, \<open>calculateAngle\<close> divides by the zero norm, and the frame appends
  \<open>NaN\<close> to the left and to the right buffer.
\<close>

theorem nan_sample_appended:
  "left (existsArms (person 10 0.05) 0.1) \<and> right (existsArms (person 10 0.05) 0.1) \<and>
   getShoulderLine (person 10 0.05) = \<lparr>vx = 0, vy = 0\<rparr> \<and>
   getArmsAngle (person 10 0.05) = \<lparr>left = NaN, right = NaN\<rparr> \<and>
   poseDetectionFrame [\<lparr>pose_score = 0.8, keypoints = person 10 0.05\<rparr>] 0.15 0.1 no_samples =
     \<lparr>left_angles = [NaN], right_angles = [NaN], faceYaws = [Fin 0]\<rparr>"
proof -
  have "getBoundingBoxSize (person 10 w) = 800" for w
    by (simp add: getBoundingBoxSize_def getBoundingBox_def person_def kp_def)
  then show ?thesis
    by (simp add: person_gates shoulders_coincide_arms_angle poseDetectionFrame_def confidentPoses_def selectMaxPose_def shoulders_coincide_samples)
      (simp add: getShoulderLine_def person_def kp_def)
qed

text \<open>
  C5, as stated, fails: with the eyes at (10, 0) and (13, 4) and the nose at (13, 6) the
  eyes-and-nose gate passes and the face yaw computed is 0, where the formula of the
  claim gives \<open>180 - (3 / 5) * 180 = 72\<close>.
\<close>

theorem face_yaw_uses_eye_line_y:
  "existsEyeAndNose (person 20 0.05) 0.1 \<and>
   getFaceYaw (person 20 0.05) = Fin 0 \<and>
   spec_faceYaw (person 20 0.05) = Fin 72"
  by (simp add: person_gates person_face_yaw person_spec_face_yaw)

text \<open>
  C5, amended. When the two eyes do not coincide, the face yaw is
  \<open>180 - (|v| / |eyeVector|) * 180\<close> where \<open>eyeVector = rightEye - leftEye\<close> and \<open>v\<close>
  is the vector with \<open>x\<close> component \<open>nose.x - leftEye.x\<close> and \<open>y\<close> component
  \<open>eyeVector.y\<close>; when moreover the eyes are level (\<open>eyeVector.y = 0\<close>) this is the
  formula of the specification, \<open>180 - (|nose.x - leftEye.x| / |eyeVector|) * 180\<close>.
\<close>

theorem face_yaw_formula:
  assumes "wf_keypoints kps" and "position (kps ! 1) \<noteq> position (kps ! 2)"
  shows "getFaceYaw kps =
           Fin (180 -
             sqrt ((vx (position (kps ! 0)) - vx (position (kps ! 1))) *
                   (vx (position (kps ! 0)) - vx (position (kps ! 1))) +
                   (vy (position (kps ! 2)) - vy (position (kps ! 1))) *
                   (vy (position (kps ! 2)) - vy (position (kps ! 1)))) /
             sqrt ((vx (position (kps ! 2)) - vx (position (kps ! 1))) *
                   (vx (position (kps ! 2)) - vx (position (kps ! 1))) +
                   (vy (position (kps ! 2)) - vy (position (kps ! 1))) *
                   (vy (position (kps ! 2)) - vy (position (kps ! 1)))) * 180) \<and>
         (vy (position (kps ! 2)) = vy (position (kps ! 1)) \<longrightarrow> getFaceYaw kps = spec_faceYaw kps)"
proof -
  let ?e = "\<lparr>vx = vx (position (kps ! 2)) - vx (position (kps ! 1)),
              vy = vy (position (kps ! 2)) - vy (position (kps ! 1))\<rparr>"
  have nz: "norm_vec ?e \<noteq> 0"
    using assms(2) by (auto simp add: norm_vec_zero_iff vector_eq_iff)
  then have nz': "sqrt ((vx (position (kps ! 2)) - vx (position (kps ! 1))) *
                   (vx (position (kps ! 2)) - vx (position (kps ! 1))) +
                   (vy (position (kps ! 2)) - vy (position (kps ! 1))) *
                   (vy (position (kps ! 2)) - vy (position (kps ! 1)))) \<noteq> 0"
    by (simp add: norm_vec_def)
  show ?thesis
    using nz nz' by (simp add: getFaceYaw_def spec_faceYaw_def Let_def jsub_def norm_vec_def)
qed

theorem face_yaw_formula_witness:
  "wf_keypoints ((person 20 0.05)[2 := kp 0.9 14 0]) \<and>
   position ((person 20 0.05)[2 := kp 0.9 14 0] ! 1) \<noteq> position ((person 20 0.05)[2 := kp 0.9 14 0] ! 2) \<and>
   vy (position ((person 20 0.05)[2 := kp 0.9 14 0] ! 2)) = vy (position ((person 20 0.05)[2 := kp 0.9 14 0] ! 1)) \<and>
   getFaceYaw ((person 20 0.05)[2 := kp 0.9 14 0]) = Fin 45 \<and>
   spec_faceYaw ((person 20 0.05)[2 := kp 0.9 14 0]) = Fin 45"
proof -
  let ?k = "(person 20 0.05)[2 := kp 0.9 14 0]"
  have w: "wf_keypoints ?k" by (simp add: wf_keypoints_def person_def)
  have n: "position (?k ! 1) \<noteq> position (?k ! 2)"
    by (simp add: person_def kp_def)
  have l: "vy (position (?k ! 2)) = vy (position (?k ! 1))"
    by (simp add: person_def kp_def)
  from face_yaw_formula [OF w n] l have "getFaceYaw ?k = spec_faceYaw ?k" by blast
  moreover have "spec_faceYaw ?k = Fin 45"
    by (simp add: spec_faceYaw_def person_def kp_def jsub_def)
  ultimately show ?thesis using w n l by simp
qed


end
